theory Spec2Isabelle
  imports Complex_Main
begin

section \<open>The numeric functions of the notebook\<close>

text \<open>
  The notebook \<^verbatim>\<open>notebooks/Introduction to PyMC.ipynb\<close> computes three things in
  code of its own: the vector \<^verbatim>\<open>failure\<close>, the likelihood \<^verbatim>\<open>survival\<close> and the
  function \<^verbatim>\<open>rate\<close>. One-dimensional NumPy arrays are lists, and integer arrays hold
  \<open>int\<close>. The arithmetic of 64-bit floats (addition, subtraction, multiplication, the
  logarithm, the conversion of an integer) belongs to the interpreter and to NumPy, not
  to the notebook: \<open>survival\<close> takes these operations as parameters, over any type \<open>'f\<close>
  of float values, so that what is proved of it holds whatever they round to.
\<close>

subsection \<open>failure\<close>

text \<open>
  \<^verbatim>\<open>failure = (data.censored==0).astype(int)\<close>
  Comparing an array with a scalar compares every element; \<^verbatim>\<open>astype(int)\<close> turns
  \<^verbatim>\<open>True\<close> into 1 and \<^verbatim>\<open>False\<close> into 0.
\<close>

definition eq_scalar :: "int list \<Rightarrow> int \<Rightarrow> bool list" where
  "eq_scalar xs c = map (\<lambda>x. x = c) xs"

definition astype_int :: "bool list \<Rightarrow> int list" where
  "astype_int bs = map (\<lambda>b. if b then 1 else 0) bs"

definition failure :: "int list \<Rightarrow> int list" where
  "failure censored = astype_int (eq_scalar censored 0)"

subsection \<open>survival\<close>

text \<open>
  \<^verbatim>\<open>
  @observed
  def survival(value=data.t, lam=lam, f=failure):
      """Exponential survival likelihood, accounting for censoring"""
      return sum(f*np.log(lam) - lam*value)
  \<close>
  The float operations the function uses: \<open>fadd\<close>, \<open>fsub\<close> and \<open>fmul\<close> are \<^verbatim>\<open>+\<close>,
  \<^verbatim>\<open>-\<close> and \<^verbatim>\<open>*\<close> on two floats, \<open>flog\<close> is \<^verbatim>\<open>np.log\<close> on one element (it never
  raises: it returns \<^verbatim>\<open>-inf\<close> or \<^verbatim>\<open>nan\<close>, which are values of \<open>'f\<close>), and \<open>fint\<close>
  converts an integer, as NumPy does with the elements of \<^verbatim>\<open>f\<close> before it multiplies
  and Python does with the \<^verbatim>\<open>0\<close> from which \<^verbatim>\<open>sum\<close> starts.
\<close>

record 'f float_ops =
  fadd :: "'f \<Rightarrow> 'f \<Rightarrow> 'f"
  fsub :: "'f \<Rightarrow> 'f \<Rightarrow> 'f"
  fmul :: "'f \<Rightarrow> 'f \<Rightarrow> 'f"
  flog :: "'f \<Rightarrow> 'f"
  fint :: "int \<Rightarrow> 'f"

text \<open>
  An elementwise operation on two arrays needs equal lengths, or one operand of length 1
  that is stretched; otherwise NumPy raises \<^verbatim>\<open>ValueError\<close>. Python evaluates
  \<^verbatim>\<open>f*np.log(lam)\<close>, then \<^verbatim>\<open>lam*value\<close>, then the difference, and the first
  operation whose shapes do not fit raises. \<^verbatim>\<open>sum\<close> starts from 0 and adds the
  elements from left to right.
\<close>

datatype np_error = ValueError

definition broadcast2 :: "('a \<Rightarrow> 'b \<Rightarrow> 'c) \<Rightarrow> 'a list \<Rightarrow> 'b list \<Rightarrow> np_error + 'c list" where
  "broadcast2 g xs ys =
     (if length xs = length ys then Inr (map2 g xs ys)
      else if length xs = 1 then Inr (map (g (hd xs)) ys)
      else if length ys = 1 then Inr (map (\<lambda>x. g x (hd ys)) xs)
      else Inl ValueError)"

definition py_sum :: "'f float_ops \<Rightarrow> 'f list \<Rightarrow> 'f" where
  "py_sum ops xs = foldl (fadd ops) (fint ops 0) xs"

definition survival :: "'f float_ops \<Rightarrow> 'f list \<Rightarrow> 'f list \<Rightarrow> int list \<Rightarrow> np_error + 'f" where
  "survival ops val lm f =
     (case broadcast2 (fmul ops) (map (fint ops) f) (map (flog ops) lm) of
        Inl err \<Rightarrow> Inl err
      | Inr a \<Rightarrow>
          (case broadcast2 (fmul ops) lm val of
             Inl err \<Rightarrow> Inl err
           | Inr b \<Rightarrow>
               (case broadcast2 (fsub ops) a b of
                  Inl err \<Rightarrow> Inl err
                | Inr c \<Rightarrow> Inr (py_sum ops c))))"



subsection \<open>rate\<close>

text \<open>
  \<^verbatim>\<open>
  @deterministic(plot=False)
  def rate(s=switchpoint, e=early_mean, l=late_mean):
      ''' Concatenate Poisson means '''
      out = np.empty(len(disasters_array))
      out[:s] = e
      out[s:] = l
      return out
  \<close>
  \<^verbatim>\<open>disasters_array\<close> comes from the external package; only its length \<open>n\<close> matters.
  \<^verbatim>\<open>np.empty\<close> returns an array whose contents are whatever the memory held: the
  function \<open>junk\<close> stands for them. A slice bound that is negative counts from the end,
  and every bound is clipped to the array; assigning a scalar to a slice stores it at
  every index of the slice. The function does no arithmetic on \<open>e\<close> and \<open>l\<close>: it only
  stores them.
\<close>

definition np_empty :: "(nat \<Rightarrow> 'a) \<Rightarrow> nat \<Rightarrow> 'a list" where
  "np_empty junk n = map junk [0..<n]"

definition slice_bound :: "int \<Rightarrow> nat \<Rightarrow> nat" where
  "slice_bound s n = (if s < 0 then nat (max 0 (s + int n)) else min (nat s) n)"

definition set_slice :: "'a list \<Rightarrow> nat \<Rightarrow> nat \<Rightarrow> 'a \<Rightarrow> 'a list" where
  "set_slice out lo hi v = map (\<lambda>i. if lo \<le> i \<and> i < hi then v else out ! i) [0..<length out]"

definition rate :: "(nat \<Rightarrow> 'a) \<Rightarrow> nat \<Rightarrow> int \<Rightarrow> 'a \<Rightarrow> 'a \<Rightarrow> 'a list" where
  "rate junk n s e l =
     (let out = np_empty junk n;
          out = set_slice out 0 (slice_bound s n) e;
          out = set_slice out (slice_bound s n) (length out) l
      in out)"

section \<open>The notebook as a program\<close>

text \<open>
  The notebook is a sequence of code cells; a cell is a sequence of Python statements,
  run from top to bottom in one interactive session. Statements and expressions are
  kept as the source writes them. A keyword argument \<^verbatim>\<open>k=v\<close> of a call, and a
  parameter with its default in a \<^verbatim>\<open>def\<close> or \<^verbatim>\<open>lambda\<close>, is \<open>Keyword k v\<close>; an
  absent bound of a slice is \<open>NoneLit\<close> (\<^verbatim>\<open>out[:s]\<close> is \<^verbatim>\<open>out[None:s]\<close>); a float
  literal keeps its text; comments are dropped, docstrings are expression statements.
  The statement forms after \<open>FunctionDef\<close> are Python's other statements, which a
  cell could contain.
\<close>

datatype expr =
    Name string
  | Num int
  | Flt string
  | Str string
  | BoolLit bool
  | NoneLit
  | Attribute expr string
  | Call expr "expr list"
  | Keyword string expr
  | ListLit "expr list"
  | Tuple "expr list"
  | Subscript expr expr
  | Slice expr expr
  | BinOp expr string expr
  | Compare expr string expr
  | Lambda "expr list" expr

datatype stmt =
    Magic string
  | Import string string
  | ImportFrom string "(string \<times> string) list"
  | Assign expr expr
  | Expr expr
  | Return expr
  | FunctionDef "expr list" string "expr list" "stmt list"
  | AugAssign expr string expr
  | Delete expr
  | If_stmt expr "stmt list" "stmt list"
  | For_stmt expr expr "stmt list"
  | While_stmt expr "stmt list"
  | Try_stmt "stmt list" "stmt list" "stmt list"
  | With_stmt expr "stmt list"
  | Raise_stmt expr
  | Assert_stmt expr

subsection \<open>The code cells\<close>

text \<open>
  \<open>Import m a\<close> is \<^verbatim>\<open>import m as a\<close>; \<open>ImportFrom m [(x, a)]\<close> is
  \<^verbatim>\<open>from m import x as a\<close>; \<open>FunctionDef decorators name parameters body\<close> is a
  \<^verbatim>\<open>def\<close>; \<open>Try_stmt body handler final\<close> is \<^verbatim>\<open>try/except/finally\<close>.
  The cells are numbered from 0 by their position in the notebook, markdown cells
  included.
\<close>

text \<open>
  Cell 1:
  \<^verbatim>\<open>
  %matplotlib inline
  import seaborn as sns; sns.set_context('notebook')
  from pymc import Normal, Lambda, observed, MCMC, Matplot, Uniform
  from pymc.examples import melanoma_data as data
  import numpy as np

  # Convert censoring indicators to indicators for failure event
  failure = (data.censored==0).astype(int)

  # Intercept for survival rate
  beta0 = Normal('beta0', mu=0.0, tau=0.0001, value=0.0)
  # Treatment effect
  beta1 = Normal('beta1', mu=0.0, tau=0.0001, value=0.0)

  # Survival rates
  lam = Lambda('lam', lambda b0=beta0, b1=beta1, tr=data.treat: np.exp(b0 + b1*tr))

  @observed
  def survival(value=data.t, lam=lam, f=failure):
      """Exponential survival likelihood, accounting for censoring"""
      return sum(f*np.log(lam) - lam*value)
  \<close>
\<close>

definition cell_01 :: "stmt list" where
  "cell_01 = [
   Magic ''matplotlib inline'',
   Import ''seaborn'' ''sns'',
   Expr (Call (Attribute (Name ''sns'') ''set_context'') [Str ''notebook'']),
   ImportFrom ''pymc'' [(''Normal'', ''Normal''), (''Lambda'', ''Lambda''), (''observed'', ''observed''), (''MCMC'', ''MCMC''), (''Matplot'', ''Matplot''), (''Uniform'', ''Uniform'')],
   ImportFrom ''pymc.examples'' [(''melanoma_data'', ''data'')],
   Import ''numpy'' ''np'',
   Assign (Name ''failure'') (Call (Attribute (Compare (Attribute (Name ''data'') ''censored'') ''=='' (Num 0)) ''astype'') [Name ''int'']),
   Assign (Name ''beta0'') (Call (Name ''Normal'') [Str ''beta0'', Keyword ''mu'' (Flt ''0.0''), Keyword ''tau'' (Flt ''0.0001''), Keyword ''value'' (Flt ''0.0'')]),
   Assign (Name ''beta1'') (Call (Name ''Normal'') [Str ''beta1'', Keyword ''mu'' (Flt ''0.0''), Keyword ''tau'' (Flt ''0.0001''), Keyword ''value'' (Flt ''0.0'')]),
   Assign (Name ''lam'') (Call (Name ''Lambda'') [Str ''lam'', Lambda [Keyword ''b0'' (Name ''beta0''), Keyword ''b1'' (Name ''beta1''), Keyword ''tr'' (Attribute (Name ''data'') ''treat'')] (Call (Attribute (Name ''np'') ''exp'') [BinOp (Name ''b0'') ''+'' (BinOp (Name ''b1'') ''*'' (Name ''tr''))])]),
   FunctionDef [Name ''observed''] ''survival'' [Keyword ''value'' (Attribute (Name ''data'') ''t''), Keyword ''lam'' (Name ''lam''), Keyword ''f'' (Name ''failure'')]
      [
       Expr (Str ''Exponential survival likelihood, accounting for censoring''),
       Return (Call (Name ''sum'') [BinOp (BinOp (Name ''f'') ''*'' (Call (Attribute (Name ''np'') ''log'') [Name ''lam''])) ''-'' (BinOp (Name ''lam'') ''*'' (Name ''value''))])]]"

text \<open>
  Cell 3:
  \<^verbatim>\<open>
  M = MCMC([beta0, beta1, lam, survival], db='pickle')
  M.sample(iter=10000, burn=5000)
  \<close>
\<close>

definition cell_03 :: "stmt list" where
  "cell_03 = [
   Assign (Name ''M'') (Call (Name ''MCMC'') [ListLit [Name ''beta0'', Name ''beta1'', Name ''lam'', Name ''survival''], Keyword ''db'' (Str ''pickle'')]),
   Expr (Call (Attribute (Name ''M'') ''sample'') [Keyword ''iter'' (Num 10000), Keyword ''burn'' (Num 5000)])]"

text \<open>
  Cell 4:
  \<^verbatim>\<open>
  Matplot.plot(beta1)
  \<close>
\<close>

definition cell_04 :: "stmt list" where
  "cell_04 = [
   Expr (Call (Attribute (Name ''Matplot'') ''plot'') [Name ''beta1''])]"

text \<open>
  Cell 6:
  \<^verbatim>\<open>
  from pymc.examples.disaster_model import disasters_array
  import matplotlib.pyplot as plt

  n_count_data = len(disasters_array)

  plt.figure(figsize=(12.5, 3.5))
  plt.bar(np.arange(1851, 1962), disasters_array, color="#348ABD")
  plt.xlabel("Year")
  plt.ylabel("Disasters")
  plt.title("UK coal mining disasters, 1851-1962")
  plt.xlim(1851, 1962);
  \<close>
\<close>

definition cell_06 :: "stmt list" where
  "cell_06 = [
   ImportFrom ''pymc.examples.disaster_model'' [(''disasters_array'', ''disasters_array'')],
   Import ''matplotlib.pyplot'' ''plt'',
   Assign (Name ''n_count_data'') (Call (Name ''len'') [Name ''disasters_array'']),
   Expr (Call (Attribute (Name ''plt'') ''figure'') [Keyword ''figsize'' (Tuple [Flt ''12.5'', Flt ''3.5''])]),
   Expr (Call (Attribute (Name ''plt'') ''bar'') [Call (Attribute (Name ''np'') ''arange'') [Num 1851, Num 1962], Name ''disasters_array'', Keyword ''color'' (Str ''#348ABD'')]),
   Expr (Call (Attribute (Name ''plt'') ''xlabel'') [Str ''Year'']),
   Expr (Call (Attribute (Name ''plt'') ''ylabel'') [Str ''Disasters'']),
   Expr (Call (Attribute (Name ''plt'') ''title'') [Str ''UK coal mining disasters, 1851-1962'']),
   Expr (Call (Attribute (Name ''plt'') ''xlim'') [Num 1851, Num 1962])]"

text \<open>
  Cell 8:
  \<^verbatim>\<open>
  from pymc import DiscreteUniform, Exponential, Poisson, deterministic

  switchpoint = DiscreteUniform('switchpoint', lower=0, upper=110, value=50)
  \<close>
\<close>

definition cell_08 :: "stmt list" where
  "cell_08 = [
   ImportFrom ''pymc'' [(''DiscreteUniform'', ''DiscreteUniform''), (''Exponential'', ''Exponential''), (''Poisson'', ''Poisson''), (''deterministic'', ''deterministic'')],
   Assign (Name ''switchpoint'') (Call (Name ''DiscreteUniform'') [Str ''switchpoint'', Keyword ''lower'' (Num 0), Keyword ''upper'' (Num 110), Keyword ''value'' (Num 50)])]"

text \<open>
  Cell 10:
  \<^verbatim>\<open>
  early_mean = Exponential('early_mean', beta=1., value=0.1)
  late_mean = Exponential('late_mean', beta=1., value=1)
  \<close>
\<close>

definition cell_10 :: "stmt list" where
  "cell_10 = [
   Assign (Name ''early_mean'') (Call (Name ''Exponential'') [Str ''early_mean'', Keyword ''beta'' (Flt ''1.''), Keyword ''value'' (Flt ''0.1'')]),
   Assign (Name ''late_mean'') (Call (Name ''Exponential'') [Str ''late_mean'', Keyword ''beta'' (Flt ''1.''), Keyword ''value'' (Num 1)])]"

text \<open>
  Cell 12:
  \<^verbatim>\<open>
  @deterministic(plot=False)
  def rate(s=switchpoint, e=early_mean, l=late_mean):
      ''' Concatenate Poisson means '''
      out = np.empty(len(disasters_array))
      out[:s] = e
      out[s:] = l
      return out
  \<close>
\<close>

definition cell_12 :: "stmt list" where
  "cell_12 = [
   FunctionDef [Call (Name ''deterministic'') [Keyword ''plot'' (BoolLit False)]] ''rate'' [Keyword ''s'' (Name ''switchpoint''), Keyword ''e'' (Name ''early_mean''), Keyword ''l'' (Name ''late_mean'')]
      [
       Expr (Str '' Concatenate Poisson means ''),
       Assign (Name ''out'') (Call (Attribute (Name ''np'') ''empty'') [Call (Name ''len'') [Name ''disasters_array'']]),
       Assign (Subscript (Name ''out'') (Slice (NoneLit) (Name ''s''))) (Name ''e''),
       Assign (Subscript (Name ''out'') (Slice (Name ''s'') (NoneLit))) (Name ''l''),
       Return (Name ''out'')]]"

text \<open>
  Cell 14:
  \<^verbatim>\<open>
  disasters = Poisson('disasters', mu=rate, value=disasters_array,
                      observed=True)
  \<close>
\<close>

definition cell_14 :: "stmt list" where
  "cell_14 = [
   Assign (Name ''disasters'') (Call (Name ''Poisson'') [Str ''disasters'', Keyword ''mu'' (Name ''rate''), Keyword ''value'' (Name ''disasters_array''), Keyword ''observed'' (BoolLit True)])]"

text \<open>
  Cell 15:
  \<^verbatim>\<open>
  disasters.logp
  \<close>
\<close>

definition cell_15 :: "stmt list" where
  "cell_15 = [
   Expr (Attribute (Name ''disasters'') ''logp'')]"

text \<open>
  Cell 18:
  \<^verbatim>\<open>
  switchpoint.parents
  \<close>
\<close>

definition cell_18 :: "stmt list" where
  "cell_18 = [
   Expr (Attribute (Name ''switchpoint'') ''parents'')]"

text \<open>
  Cell 20:
  \<^verbatim>\<open>
  disasters.parents
  \<close>
\<close>

definition cell_20 :: "stmt list" where
  "cell_20 = [
   Expr (Attribute (Name ''disasters'') ''parents'')]"

text \<open>
  Cell 21:
  \<^verbatim>\<open>
  rate.parents
  \<close>
\<close>

definition cell_21 :: "stmt list" where
  "cell_21 = [
   Expr (Attribute (Name ''rate'') ''parents'')]"

text \<open>
  Cell 23:
  \<^verbatim>\<open>
  rate.children
  \<close>
\<close>

definition cell_23 :: "stmt list" where
  "cell_23 = [
   Expr (Attribute (Name ''rate'') ''children'')]"

text \<open>
  Cell 27:
  \<^verbatim>\<open>
  disasters.value
  \<close>
\<close>

definition cell_27 :: "stmt list" where
  "cell_27 = [
   Expr (Attribute (Name ''disasters'') ''value'')]"

text \<open>
  Cell 29:
  \<^verbatim>\<open>
  switchpoint.value
  \<close>
\<close>

definition cell_29 :: "stmt list" where
  "cell_29 = [
   Expr (Attribute (Name ''switchpoint'') ''value'')]"

text \<open>
  Cell 30:
  \<^verbatim>\<open>
  early_mean.value
  \<close>
\<close>

definition cell_30 :: "stmt list" where
  "cell_30 = [
   Expr (Attribute (Name ''early_mean'') ''value'')]"

text \<open>
  Cell 31:
  \<^verbatim>\<open>
  late_mean.value
  \<close>
\<close>

definition cell_31 :: "stmt list" where
  "cell_31 = [
   Expr (Attribute (Name ''late_mean'') ''value'')]"

text \<open>
  Cell 33:
  \<^verbatim>\<open>
  rate.value
  \<close>
\<close>

definition cell_33 :: "stmt list" where
  "cell_33 = [
   Expr (Attribute (Name ''rate'') ''value'')]"

text \<open>
  Cell 35:
  \<^verbatim>\<open>
  switchpoint.logp
  \<close>
\<close>

definition cell_35 :: "stmt list" where
  "cell_35 = [
   Expr (Attribute (Name ''switchpoint'') ''logp'')]"

text \<open>
  Cell 36:
  \<^verbatim>\<open>
  disasters.logp
  \<close>
\<close>

definition cell_36 :: "stmt list" where
  "cell_36 = [
   Expr (Attribute (Name ''disasters'') ''logp'')]"

text \<open>
  Cell 37:
  \<^verbatim>\<open>
  early_mean.logp
  \<close>
\<close>

definition cell_37 :: "stmt list" where
  "cell_37 = [
   Expr (Attribute (Name ''early_mean'') ''logp'')]"

text \<open>
  Cell 38:
  \<^verbatim>\<open>
  late_mean.logp
  \<close>
\<close>

definition cell_38 :: "stmt list" where
  "cell_38 = [
   Expr (Attribute (Name ''late_mean'') ''logp'')]"

text \<open>
  Cell 42:
  \<^verbatim>\<open>
  from pymc.examples import disaster_model
  M = MCMC(disaster_model)
  \<close>
\<close>

definition cell_42 :: "stmt list" where
  "cell_42 = [
   ImportFrom ''pymc.examples'' [(''disaster_model'', ''disaster_model'')],
   Assign (Name ''M'') (Call (Name ''MCMC'') [Name ''disaster_model''])]"

text \<open>
  Cell 43:
  \<^verbatim>\<open>
  M
  \<close>
\<close>

definition cell_43 :: "stmt list" where
  "cell_43 = [
   Expr (Name ''M'')]"

text \<open>
  Cell 44:
  \<^verbatim>\<open>
  M.late_mean
  \<close>
\<close>

definition cell_44 :: "stmt list" where
  "cell_44 = [
   Expr (Attribute (Name ''M'') ''late_mean'')]"

text \<open>
  Cell 46:
  \<^verbatim>\<open>
  M.sample(iter=10000, burn=1000)
  \<close>
\<close>

definition cell_46 :: "stmt list" where
  "cell_46 = [
   Expr (Call (Attribute (Name ''M'') ''sample'') [Keyword ''iter'' (Num 10000), Keyword ''burn'' (Num 1000)])]"

text \<open>
  Cell 48:
  \<^verbatim>\<open>
  M.trace('early_mean')[1000:]
  \<close>
\<close>

definition cell_48 :: "stmt list" where
  "cell_48 = [
   Expr (Subscript (Call (Attribute (Name ''M'') ''trace'') [Str ''early_mean'']) (Slice (Num 1000) (NoneLit)))]"

text \<open>
  Cell 50:
  \<^verbatim>\<open>
  plt.hist(M.trace('late_mean')[:])
  \<close>
\<close>

definition cell_50 :: "stmt list" where
  "cell_50 = [
   Expr (Call (Attribute (Name ''plt'') ''hist'') [Subscript (Call (Attribute (Name ''M'') ''trace'') [Str ''late_mean'']) (Slice (NoneLit) (NoneLit))])]"

text \<open>
  Cell 52:
  \<^verbatim>\<open>
  Matplot.plot(M)
  \<close>
\<close>

definition cell_52 :: "stmt list" where
  "cell_52 = [
   Expr (Call (Attribute (Name ''Matplot'') ''plot'') [Name ''M''])]"

text \<open>
  Cell 54:
  \<^verbatim>\<open>
  M.early_mean.summary()
  \<close>
\<close>

definition cell_54 :: "stmt list" where
  "cell_54 = [
   Expr (Call (Attribute (Attribute (Name ''M'') ''early_mean'') ''summary'') [])]"

text \<open>
  Cell 56:
  \<^verbatim>\<open>
  x = np.array([ 4, 5, 4, 0, 1, 4, 3, 4, 0, 6, 3, 3, 4, 0, 2, 6,
  3, 3, 5, 4, 5, 3, 1, 4, 4, 1, 5, 5, 3, 4, 2, 5,
  2, 2, 3, 4, 2, 1, 3, None, 2, 1, 1, 1, 1, 3, 0, 0,
  1, 0, 1, 1, 0, 0, 3, 1, 0, 3, 2, 2, 0, 1, 1, 1,
  0, 1, 0, 1, 0, 0, 0, 2, 1, 0, 0, 0, 1, 1, 0, 2,
  3, 3, 1, None, 2, 1, 1, 1, 1, 2, 4, 2, 0, 0, 1, 4,
  0, 0, 0, 1, 0, 0, 0, 0, 0, 1, 0, 0, 1, 0, 1])
  \<close>
\<close>

definition cell_56 :: "stmt list" where
  "cell_56 = [
   Assign (Name ''x'') (Call (Attribute (Name ''np'') ''array'') [ListLit [Num 4, Num 5, Num 4, Num 0, Num 1, Num 4, Num 3, Num 4, Num 0, Num 6, Num 3, Num 3, Num 4, Num 0, Num 2, Num 6, Num 3, Num 3, Num 5, Num 4, Num 5, Num 3, Num 1, Num 4, Num 4, Num 1, Num 5, Num 5, Num 3, Num 4, Num 2, Num 5, Num 2, Num 2, Num 3, Num 4, Num 2, Num 1, Num 3, NoneLit, Num 2, Num 1, Num 1, Num 1, Num 1, Num 3, Num 0, Num 0, Num 1, Num 0, Num 1, Num 1, Num 0, Num 0, Num 3, Num 1, Num 0, Num 3, Num 2, Num 2, Num 0, Num 1, Num 1, Num 1, Num 0, Num 1, Num 0, Num 1, Num 0, Num 0, Num 0, Num 2, Num 1, Num 0, Num 0, Num 0, Num 1, Num 1, Num 0, Num 2, Num 3, Num 3, Num 1, NoneLit, Num 2, Num 1, Num 1, Num 1, Num 1, Num 2, Num 4, Num 2, Num 0, Num 0, Num 1, Num 4, Num 0, Num 0, Num 0, Num 1, Num 0, Num 0, Num 0, Num 0, Num 0, Num 1, Num 0, Num 0, Num 1, Num 0, Num 1]])]"

text \<open>
  Cell 58:
  \<^verbatim>\<open>
  masked_values = np.ma.masked_values(x, value=None)
  masked_values
  \<close>
\<close>

definition cell_58 :: "stmt list" where
  "cell_58 = [
   Assign (Name ''masked_values'') (Call (Attribute (Attribute (Name ''np'') ''ma'') ''masked_values'') [Name ''x'', Keyword ''value'' (NoneLit)]),
   Expr (Name ''masked_values'')]"

text \<open>
  Cell 60:
  \<^verbatim>\<open>
  disasters = Poisson('disasters', mu=rate,
                      value=masked_values, observed=True)
  \<close>
\<close>

definition cell_60 :: "stmt list" where
  "cell_60 = [
   Assign (Name ''disasters'') (Call (Name ''Poisson'') [Str ''disasters'', Keyword ''mu'' (Name ''rate''), Keyword ''value'' (Name ''masked_values''), Keyword ''observed'' (BoolLit True)])]"

text \<open>
  Cell 62:
  \<^verbatim>\<open>
  def missing_data_model():

      # Switchpoint
      switch = DiscreteUniform('switch', lower=0, upper=110)
      # Early mean
      early_mean = Exponential('early_mean', beta=1)
      # Late mean
      late_mean = Exponential('late_mean', beta=1)

      @deterministic(plot=False)
      def rate(s=switch, e=early_mean, l=late_mean):
          """Allocate appropriate mean to time series"""
          out = np.empty(len(disasters_array))
          # Early mean prior to switchpoint
          out[:s] = e
          # Late mean following switchpoint
          out[s:] = l
          return out

      masked_values = np.ma.masked_values(x, value=None)

      # Pass masked array to data stochastic, and it does the right thing
      disasters = Poisson('disasters', mu=rate, value=masked_values, observed=True)

      return locals()
  \<close>
\<close>

definition cell_62 :: "stmt list" where
  "cell_62 = [
   FunctionDef [] ''missing_data_model'' []
      [
       Assign (Name ''switch'') (Call (Name ''DiscreteUniform'') [Str ''switch'', Keyword ''lower'' (Num 0), Keyword ''upper'' (Num 110)]),
       Assign (Name ''early_mean'') (Call (Name ''Exponential'') [Str ''early_mean'', Keyword ''beta'' (Num 1)]),
       Assign (Name ''late_mean'') (Call (Name ''Exponential'') [Str ''late_mean'', Keyword ''beta'' (Num 1)]),
       FunctionDef [Call (Name ''deterministic'') [Keyword ''plot'' (BoolLit False)]] ''rate'' [Keyword ''s'' (Name ''switch''), Keyword ''e'' (Name ''early_mean''), Keyword ''l'' (Name ''late_mean'')]
          [
           Expr (Str ''Allocate appropriate mean to time series''),
           Assign (Name ''out'') (Call (Attribute (Name ''np'') ''empty'') [Call (Name ''len'') [Name ''disasters_array'']]),
           Assign (Subscript (Name ''out'') (Slice (NoneLit) (Name ''s''))) (Name ''e''),
           Assign (Subscript (Name ''out'') (Slice (Name ''s'') (NoneLit))) (Name ''l''),
           Return (Name ''out'')],
       Assign (Name ''masked_values'') (Call (Attribute (Attribute (Name ''np'') ''ma'') ''masked_values'') [Name ''x'', Keyword ''value'' (NoneLit)]),
       Assign (Name ''disasters'') (Call (Name ''Poisson'') [Str ''disasters'', Keyword ''mu'' (Name ''rate''), Keyword ''value'' (Name ''masked_values''), Keyword ''observed'' (BoolLit True)]),
       Return (Call (Name ''locals'') [])]]"

text \<open>
  Cell 64:
  \<^verbatim>\<open>
  M_missing = MCMC(missing_data_model())
  M_missing.sample(5000)
  \<close>
\<close>

definition cell_64 :: "stmt list" where
  "cell_64 = [
   Assign (Name ''M_missing'') (Call (Name ''MCMC'') [Call (Name ''missing_data_model'') []]),
   Expr (Call (Attribute (Name ''M_missing'') ''sample'') [Num 5000])]"

text \<open>
  Cell 65:
  \<^verbatim>\<open>
  M_missing.stochastics
  \<close>
\<close>

definition cell_65 :: "stmt list" where
  "cell_65 = [
   Expr (Attribute (Name ''M_missing'') ''stochastics'')]"

text \<open>
  Cell 66:
  \<^verbatim>\<open>
  Matplot.summary_plot(M_missing.disasters)
  \<close>
\<close>

definition cell_66 :: "stmt list" where
  "cell_66 = [
   Expr (Call (Attribute (Name ''Matplot'') ''summary_plot'') [Attribute (Name ''M_missing'') ''disasters''])]"

text \<open>
  Cell 68:
  \<^verbatim>\<open>
  M.step_method_dict
  \<close>
\<close>

definition cell_68 :: "stmt list" where
  "cell_68 = [
   Expr (Attribute (Name ''M'') ''step_method_dict'')]"

text \<open>
  Cell 70:
  \<^verbatim>\<open>
  from pymc import Metropolis
  M.use_step_method(Metropolis, disaster_model.late_mean, proposal_sd=2.)
  \<close>
\<close>

definition cell_70 :: "stmt list" where
  "cell_70 = [
   ImportFrom ''pymc'' [(''Metropolis'', ''Metropolis'')],
   Expr (Call (Attribute (Name ''M'') ''use_step_method'') [Name ''Metropolis'', Attribute (Name ''disaster_model'') ''late_mean'', Keyword ''proposal_sd'' (Flt ''2.'')])]"

definition notebook :: "stmt list list" where
  "notebook = [cell_01, cell_03, cell_04, cell_06, cell_08, cell_10, cell_12, cell_14, cell_15, cell_18, cell_20, cell_21, cell_23, cell_27, cell_29, cell_30, cell_31, cell_33, cell_35, cell_36, cell_37, cell_38, cell_42, cell_43, cell_44, cell_46, cell_48, cell_50, cell_52, cell_54, cell_56, cell_58, cell_60, cell_62, cell_64, cell_65, cell_66, cell_68, cell_70]"

subsection \<open>Walking the program\<close>

text \<open>Every expression below an expression, itself included, in source order.\<close>

fun sub_exprs :: "expr \<Rightarrow> expr list" where
  "sub_exprs (Attribute e a) = Attribute e a # sub_exprs e"
| "sub_exprs (Call g args) = Call g args # sub_exprs g @ concat (map sub_exprs args)"
| "sub_exprs (Keyword k e) = Keyword k e # sub_exprs e"
| "sub_exprs (ListLit es) = ListLit es # concat (map sub_exprs es)"
| "sub_exprs (Tuple es) = Tuple es # concat (map sub_exprs es)"
| "sub_exprs (Subscript e i) = Subscript e i # sub_exprs e @ sub_exprs i"
| "sub_exprs (Slice lo hi) = Slice lo hi # sub_exprs lo @ sub_exprs hi"
| "sub_exprs (BinOp a opr b) = BinOp a opr b # sub_exprs a @ sub_exprs b"
| "sub_exprs (Compare a opr b) = Compare a opr b # sub_exprs a @ sub_exprs b"
| "sub_exprs (Lambda ps e) = Lambda ps e # concat (map sub_exprs ps) @ sub_exprs e"
| "sub_exprs e = [e]"

text \<open>Every statement below a statement, itself included.\<close>

fun sub_stmts :: "stmt \<Rightarrow> stmt list" where
  "sub_stmts (FunctionDef ds n ps body) =
     FunctionDef ds n ps body # concat (map sub_stmts body)"
| "sub_stmts (If_stmt c a b) =
     If_stmt c a b # concat (map sub_stmts a) @ concat (map sub_stmts b)"
| "sub_stmts (For_stmt t i body) = For_stmt t i body # concat (map sub_stmts body)"
| "sub_stmts (While_stmt c body) = While_stmt c body # concat (map sub_stmts body)"
| "sub_stmts (Try_stmt body h fin) =
     Try_stmt body h fin # concat (map sub_stmts body) @ concat (map sub_stmts h)
       @ concat (map sub_stmts fin)"
| "sub_stmts (With_stmt e body) = With_stmt e body # concat (map sub_stmts body)"
| "sub_stmts s = [s]"

text \<open>The expressions a statement holds itself (those of nested statements excluded).\<close>

fun stmt_exprs :: "stmt \<Rightarrow> expr list" where
  "stmt_exprs (Assign t v) = [t, v]"
| "stmt_exprs (Expr e) = [e]"
| "stmt_exprs (Return e) = [e]"
| "stmt_exprs (FunctionDef ds n ps body) = ds @ ps"
| "stmt_exprs (AugAssign t opr v) = [t, v]"
| "stmt_exprs (Delete e) = [e]"
| "stmt_exprs (If_stmt c a b) = [c]"
| "stmt_exprs (For_stmt t i body) = [t, i]"
| "stmt_exprs (While_stmt c body) = [c]"
| "stmt_exprs (With_stmt e body) = [e]"
| "stmt_exprs (Raise_stmt e) = [e]"
| "stmt_exprs (Assert_stmt e) = [e]"
| "stmt_exprs s = []"

definition all_stmts :: "stmt list list \<Rightarrow> stmt list" where
  "all_stmts cells = concat (map sub_stmts (concat cells))"

definition all_exprs :: "stmt list list \<Rightarrow> expr list" where
  "all_exprs cells = concat (map sub_exprs (concat (map stmt_exprs (all_stmts cells))))"

subsection \<open>Functions, calls and control flow\<close>

text \<open>Branches, loops and the two statements that wrap a block.\<close>

fun is_control_flow :: "stmt \<Rightarrow> bool" where
  "is_control_flow (If_stmt c a b) = True"
| "is_control_flow (For_stmt t i body) = True"
| "is_control_flow (While_stmt c body) = True"
| "is_control_flow (Try_stmt body h fin) = True"
| "is_control_flow (With_stmt e body) = True"
| "is_control_flow s = False"

fun def_name :: "stmt \<Rightarrow> string option" where
  "def_name (FunctionDef ds n ps body) = Some n"
| "def_name s = None"

text \<open>The names of the functions the notebook defines with \<^verbatim>\<open>def\<close>, nested ones included.\<close>

definition defined_functions :: "stmt list list \<Rightarrow> string list" where
  "defined_functions cells = List.map_filter def_name (all_stmts cells)"

fun is_Lambda :: "expr \<Rightarrow> bool" where
  "is_Lambda (Lambda ps e) = True"
| "is_Lambda e = False"

definition lambdas :: "stmt list list \<Rightarrow> expr list" where
  "lambdas cells = filter is_Lambda (all_exprs cells)"

text \<open>The operators the notebook applies itself: arithmetic and comparison.\<close>

fun operator_of :: "expr \<Rightarrow> string option" where
  "operator_of (BinOp a opr b) = Some opr"
| "operator_of (Compare a opr b) = Some opr"
| "operator_of e = None"

definition operators :: "stmt list list \<Rightarrow> string list" where
  "operators cells = List.map_filter operator_of (all_exprs cells)"

text \<open>
  The name a call goes to: \<^verbatim>\<open>g(...)\<close> calls \<^verbatim>\<open>g\<close>, \<^verbatim>\<open>obj.m(...)\<close> calls the method
  \<^verbatim>\<open>m\<close>.
\<close>

fun callee_name :: "expr \<Rightarrow> string option" where
  "callee_name (Call (Name g) args) = Some g"
| "callee_name (Call (Attribute obj m) args) = Some m"
| "callee_name e = None"

fun import_names :: "stmt \<Rightarrow> string list" where
  "import_names (Import m a) = [a]"
| "import_names (ImportFrom m ns) = map snd ns"
| "import_names s = []"

definition imported_names :: "stmt list list \<Rightarrow> string list" where
  "imported_names cells = concat (map import_names (all_stmts cells))"

text \<open>The Python built-ins the notebook calls.\<close>

definition builtins :: "string list" where
  "builtins = [''sum'', ''len'', ''locals'']"

text \<open>
  Where a call goes: the name at the root of the callee. \<^verbatim>\<open>np.ma.masked_values(...)\<close>
  goes to \<^verbatim>\<open>np\<close>, \<^verbatim>\<open>M.early_mean.summary()\<close> to \<^verbatim>\<open>M\<close>,
  \<^verbatim>\<open>(data.censored==0).astype(int)\<close> to \<^verbatim>\<open>data\<close>. A callee with no such name has
  root \<open>None\<close>.
\<close>

fun root :: "expr \<Rightarrow> string option" where
  "root (Name x) = Some x"
| "root (Attribute e a) = root e"
| "root (Call g args) = root g"
| "root (Subscript e i) = root e"
| "root (Compare a opr b) = root a"
| "root e = None"

fun callee_root :: "expr \<Rightarrow> string option list" where
  "callee_root (Call g args) = [root g]"
| "callee_root e = []"

definition callee_roots :: "stmt list list \<Rightarrow> string option list" where
  "callee_roots cells = remdups (concat (map callee_root (all_exprs cells)))"

text \<open>For the calls of given names, the name called and where the call goes.\<close>

fun call_site :: "expr \<Rightarrow> (string \<times> string option) list" where
  "call_site (Call g args) =
     (case callee_name (Call g args) of Some m \<Rightarrow> [(m, root g)] | None \<Rightarrow> [])"
| "call_site e = []"

definition call_sites :: "string list \<Rightarrow> stmt list list \<Rightarrow> (string \<times> string option) list" where
  "call_sites names cells =
     remdups (filter (\<lambda>site. fst site \<in> set names) (concat (map call_site (all_exprs cells))))"

text \<open>What the top level of the cells assigns to a name: the callee of each value.\<close>

fun binding_of :: "string \<Rightarrow> stmt \<Rightarrow> string option list" where
  "binding_of x (Assign (Name y) v) = (if x = y then [callee_name v] else [])"
| "binding_of x s = []"

definition bindings_of :: "string \<Rightarrow> stmt list list \<Rightarrow> string option list" where
  "bindings_of x cells = concat (map (binding_of x) (concat cells))"

text \<open>
  A call goes outside the notebook when its root is an imported name, a Python built-in,
  or one of the two names the notebook binds to an \<^verbatim>\<open>MCMC\<close> object; the one function of
  the notebook that it calls itself is \<open>missing_data_model\<close>.
\<close>

definition call_through :: "stmt list list \<Rightarrow> string option \<Rightarrow> bool" where
  "call_through cells r =
     (case r of
        None \<Rightarrow> False
      | Some x \<Rightarrow>
          x \<in> set (imported_names cells) \<or> x \<in> set builtins \<or> x \<in> set [''M'', ''M_missing'']
          \<or> x = ''missing_data_model'')"

text \<open>The operators each statement of a cell applies.\<close>

definition operators_by_stmt :: "stmt list \<Rightarrow> string list list" where
  "operators_by_stmt cell = map (\<lambda>s. operators [[s]]) cell"

subsection \<open>Calls of the fitting routine\<close>

text \<open>
  The notebook calls \<^verbatim>\<open>sample\<close> as a method of an \<^verbatim>\<open>MCMC\<close> object. Its markdown names
  the arguments in the order number of iterations, burn-in length, thinning interval,
  which is the order of the parameters \<^verbatim>\<open>iter\<close>, \<^verbatim>\<open>burn\<close>, \<^verbatim>\<open>thin\<close> of the external
  method. A call supplies a parameter by keyword or by position.
\<close>

fun sample_args :: "expr \<Rightarrow> expr list option" where
  "sample_args (Call (Attribute obj m) args) = (if m = ''sample'' then Some args else None)"
| "sample_args e = None"

definition sample_calls :: "stmt list list \<Rightarrow> expr list list" where
  "sample_calls cells = List.map_filter sample_args (all_exprs cells)"

fun keyword_name :: "expr \<Rightarrow> string option" where
  "keyword_name (Keyword k v) = Some k"
| "keyword_name e = None"

definition keyword_names :: "expr list \<Rightarrow> string list" where
  "keyword_names args = List.map_filter keyword_name args"

definition positional :: "expr list \<Rightarrow> expr list" where
  "positional args = filter (\<lambda>a. keyword_name a = None) args"

definition supplies :: "nat \<Rightarrow> string \<Rightarrow> expr list \<Rightarrow> bool" where
  "supplies pos kw args = (kw \<in> set (keyword_names args) \<or> pos < length (positional args))"

definition passes_iter_burn_thin :: "expr list \<Rightarrow> bool" where
  "passes_iter_burn_thin args =
     (supplies 0 ''iter'' args \<and> supplies 1 ''burn'' args \<and> supplies 2 ''thin'' args)"

subsection \<open>Requests for a storage backend\<close>






subsection \<open>Bindings\<close>

text \<open>
  The names the session binds by assignment or \<^verbatim>\<open>def\<close> at the top level of the cells,
  in the order of execution; the statements that change an object in place (assignment
  to a subscript or an attribute, augmented assignment, \<^verbatim>\<open>del\<close>), at any depth.
\<close>

fun bound_name :: "stmt \<Rightarrow> string list" where
  "bound_name (Assign (Name x) v) = [x]"
| "bound_name (FunctionDef ds n ps body) = [n]"
| "bound_name s = []"

definition assigned_names :: "stmt list list \<Rightarrow> string list" where
  "assigned_names cells = concat (map bound_name (concat cells))"

fun rebound :: "string list \<Rightarrow> string list" where
  "rebound [] = []"
| "rebound (x # xs) = (if x \<in> set xs then x # rebound xs else rebound xs)"

fun in_place :: "stmt \<Rightarrow> bool" where
  "in_place (Assign (Name x) v) = False"
| "in_place (Assign t v) = True"
| "in_place (AugAssign t opr v) = True"
| "in_place (Delete e) = True"
| "in_place s = False"

subsection \<open>Errors\<close>

text \<open>The statements with which Python code catches, suppresses or raises an error.\<close>

fun handles_errors :: "stmt \<Rightarrow> bool" where
  "handles_errors (Try_stmt body h fin) = True"
| "handles_errors (With_stmt e body) = True"
| "handles_errors (Raise_stmt e) = True"
| "handles_errors s = False"

text \<open>
  Running a block in a session state \<open>'s\<close>. What a statement other than
  \<^verbatim>\<open>try\<close> does is decided outside the notebook, by the interpreter and the libraries:
  \<open>ext s st\<close> is the state after \<open>s\<close>, or the error it raised. A block stops at the first
  error; \<^verbatim>\<open>try\<close> runs its handler on an error of its body, and the error is gone.
\<close>

fun run :: "(stmt \<Rightarrow> 's \<Rightarrow> 'e + 's) \<Rightarrow> stmt list \<Rightarrow> 's \<Rightarrow> 'e + 's" where
  "run ext [] st = Inr st"
| "run ext (Try_stmt body h fin # rest) st =
     (case (case run ext body st of Inl e \<Rightarrow> run ext h st | Inr st1 \<Rightarrow> Inr st1) of
        Inl e \<Rightarrow> (case run ext fin st of Inl e2 \<Rightarrow> Inl e2 | Inr st2 \<Rightarrow> Inl e)
      | Inr st1 \<Rightarrow>
          (case run ext fin st1 of Inl e2 \<Rightarrow> Inl e2 | Inr st2 \<Rightarrow> run ext rest st2))"
| "run ext (s # rest) st =
     (case ext s st of Inl e \<Rightarrow> Inl e | Inr st1 \<Rightarrow> run ext rest st1)"

subsection \<open>The flow of an example\<close>

text \<open>
  The notebook has three examples: the survival model (cells 1 to 4), the coal mining
  disasters (cells 6 to 54) and the imputation of missing data (cells 56 to 66).
\<close>

definition survival_example :: "stmt list list" where
  "survival_example = [cell_01, cell_03, cell_04]"

definition coal_example :: "stmt list list" where
  "coal_example = [cell_06, cell_08, cell_10, cell_12, cell_14, cell_15, cell_18, cell_20,
     cell_21, cell_23, cell_27, cell_29, cell_30, cell_31, cell_33, cell_35, cell_36,
     cell_37, cell_38, cell_42, cell_43, cell_44, cell_46, cell_48, cell_50, cell_52,
     cell_54]"

definition missing_example :: "stmt list list" where
  "missing_example = [cell_56, cell_58, cell_60, cell_62, cell_64, cell_65, cell_66]"




text \<open>
  The classes and decorators of the external library that make a model variable, its
  fitting calls, and the calls that plot or summarise what was fitted
  (\<^verbatim>\<open>Matplot.plot\<close>, \<^verbatim>\<open>Matplot.summary_plot\<close>, \<^verbatim>\<open>summary\<close>, \<^verbatim>\<open>plt.hist\<close> of a trace,
  \<^verbatim>\<open>trace\<close>). The calls of cell 6 that draw the raw data are none of these.
\<close>

definition variable_classes :: "string list" where
  "variable_classes =
     [''Normal'', ''Lambda'', ''Uniform'', ''DiscreteUniform'', ''Exponential'', ''Poisson'']"

definition variable_decorators :: "string list" where
  "variable_decorators = [''observed'', ''deterministic'']"



fun decorator_name :: "expr \<Rightarrow> string list" where
  "decorator_name (Name d) = [d]"
| "decorator_name (Call (Name d) args) = [d]"
| "decorator_name e = []"







text \<open>
  The variables an example declares, at any depth, by name; those computed from others
  (a \<^verbatim>\<open>Lambda\<close> or a \<^verbatim>\<open>@deterministic\<close> function); those observed (an \<^verbatim>\<open>@observed\<close>
  function or \<^verbatim>\<open>observed=True\<close>).
\<close>

fun declared_as :: "string list \<Rightarrow> string list \<Rightarrow> stmt \<Rightarrow> string list" where
  "declared_as classes decs (Assign (Name x) (Call (Name c) args)) =
     (if c \<in> set classes then [x] else [])"
| "declared_as classes decs (FunctionDef ds n ps body) =
     (if list_ex (\<lambda>d. d \<in> set decs) (concat (map decorator_name ds)) then [n] else [])"
| "declared_as classes decs s = []"

definition declared :: "stmt list list \<Rightarrow> string list" where
  "declared cells =
     concat (map (declared_as variable_classes variable_decorators) (all_stmts cells))"

definition computed :: "stmt list list \<Rightarrow> string list" where
  "computed cells = concat (map (declared_as [''Lambda''] [''deterministic'']) (all_stmts cells))"

fun is_observed :: "stmt \<Rightarrow> string list" where
  "is_observed (Assign (Name x) (Call (Name c) args)) =
     (if c \<in> set variable_classes \<and> Keyword ''observed'' (BoolLit True) \<in> set args
      then [x] else [])"
| "is_observed (FunctionDef ds n ps body) =
     (if ''observed'' \<in> set (concat (map decorator_name ds)) then [n] else [])"
| "is_observed s = []"

definition observed :: "stmt list list \<Rightarrow> string list" where
  "observed cells = concat (map is_observed (all_stmts cells))"




section \<open>Properties of the numeric functions\<close>

lemma length_failure: "length (failure censored) = length censored"
  by (simp add: failure_def astype_int_def eq_scalar_def)

lemma failure_nth:
  "i < length censored \<Longrightarrow> failure censored ! i = (if censored ! i = 0 then 1 else 0)"
  by (simp add: failure_def astype_int_def eq_scalar_def)

text \<open>
  C10. For every censoring vector, \<open>failure\<close> has the same length, each of its elements is
  0 or 1, an element is 1 exactly where \<open>censored\<close> is 0, and building \<open>failure\<close> of
  \<open>failure\<close> gives a vector that is 1 exactly where \<open>censored\<close> is not 0.
\<close>

theorem failure_complement:
  "length (failure censored) = length censored \<and>
   (\<forall>i < length censored.
      failure censored ! i \<in> {0, 1} \<and>
      (failure censored ! i = 1 \<longleftrightarrow> censored ! i = 0) \<and>
      (failure (failure censored) ! i = 1 \<longleftrightarrow> censored ! i \<noteq> 0))"
  by (simp add: length_failure failure_nth)

theorem failure_complement_witness:
  "length (failure [1, 0, 2, 0]) = 4 \<and>
   failure [1, 0, 2, 0] = [0, 1, 0, 1] \<and>
   failure (failure [1, 0, 2, 0]) ! 2 = 1"
  using failure_complement [of "[1, 0, 2, 0]"]
  by (simp add: failure_def astype_int_def eq_scalar_def)

subsection \<open>rate\<close>

lemma length_set_slice: "length (set_slice out lo hi v) = length out"
  by (simp add: set_slice_def)

lemma set_slice_nth:
  "i < length out \<Longrightarrow> set_slice out lo hi v ! i = (if lo \<le> i \<and> i < hi then v else out ! i)"
  by (simp add: set_slice_def)

lemma slice_bound_in_range: "0 \<le> s \<Longrightarrow> s \<le> int n \<Longrightarrow> slice_bound s n = nat s"
  by (simp add: slice_bound_def)

lemma length_rate: "length (rate junk n s e l) = n"
  by (simp add: rate_def Let_def length_set_slice np_empty_def)

lemma rate_nth:
  assumes "i < n"
  shows "rate junk n s e l ! i = (if i < slice_bound s n then e else l)"
  using assms
  by (simp add: rate_def Let_def length_set_slice set_slice_nth np_empty_def)

text \<open>
  C3. For every switchpoint \<open>s\<close> with \<open>0 \<le> s \<le> n\<close>, where \<open>n\<close> is the length of
  \<^verbatim>\<open>disasters_array\<close>, and all real \<open>e\<close> and \<open>l\<close>, \<open>rate\<close> returns an array of length \<open>n\<close>
  that holds \<open>e\<close> at every index below \<open>s\<close> and \<open>l\<close> at every index from \<open>s\<close> on, whatever
  \<^verbatim>\<open>np.empty\<close> left in the array; \<open>s = 0\<close> gives \<open>l\<close> everywhere and \<open>s = n\<close> gives \<open>e\<close>
  everywhere.
\<close>

theorem rate_allocates:
  fixes e l :: real
  assumes "0 \<le> s" and "s \<le> int n"
  shows "length (rate junk n s e l) = n \<and>
         (\<forall>i < n. rate junk n s e l ! i = (if int i < s then e else l)) \<and>
         (s = 0 \<longrightarrow> rate junk n s e l = replicate n l) \<and>
         (s = int n \<longrightarrow> rate junk n s e l = replicate n e)"
proof -
  have sb: "slice_bound s n = nat s"
    using assms by (rule slice_bound_in_range)
  have nth: "rate junk n s e l ! i = (if int i < s then e else l)" if "i < n" for i
    using that assms by (simp add: rate_nth sb) linarith
  have zero: "rate junk n s e l = replicate n l" if "s = 0"
  proof (rule nth_equalityI)
    show "length (rate junk n s e l) = length (replicate n l)"
      by (simp add: length_rate)
    fix i assume "i < length (rate junk n s e l)"
    then have "i < n" by (simp add: length_rate)
    then show "rate junk n s e l ! i = replicate n l ! i"
      using nth [of i] that by simp
  qed
  have full: "rate junk n s e l = replicate n e" if "s = int n"
  proof (rule nth_equalityI)
    show "length (rate junk n s e l) = length (replicate n e)"
      by (simp add: length_rate)
    fix i assume "i < length (rate junk n s e l)"
    then have "i < n" by (simp add: length_rate)
    then show "rate junk n s e l ! i = replicate n e ! i"
      using nth [of i] that by simp
  qed
  show ?thesis
    using nth zero full by (simp add: length_rate)
qed

theorem rate_allocates_witness:
  "rate (\<lambda>_. 0) 4 1 (5::real) 7 = [5, 7, 7, 7] \<and>
   rate (\<lambda>_. 0) 4 0 (5::real) 7 = [7, 7, 7, 7] \<and>
   rate (\<lambda>_. 0) 4 4 (5::real) 7 = [5, 5, 5, 5]"
  using rate_allocates [of 1 4 "\<lambda>_. 0" 5 7]
  by (simp add: rate_def np_empty_def set_slice_def slice_bound_def Let_def upt_rec)

subsection \<open>survival\<close>





section \<open>Properties of the notebook\<close>

subsection \<open>What the walks find\<close>

lemma notebook_functions:
  "defined_functions notebook = [''survival'', ''rate'', ''missing_data_model'', ''rate'']"
  by code_simp

lemma notebook_lambdas: "length (lambdas notebook) = 1"
  by code_simp

lemma notebook_operators: "operators notebook = [''=='', ''+'', ''*'', ''-'', ''*'', ''*'']"
  by code_simp

lemma notebook_control_flow: "filter is_control_flow (all_stmts notebook) = []"
  by code_simp

lemma notebook_handlers: "filter handles_errors (all_stmts notebook) = []"
  by code_simp

lemma notebook_imported_names:
  "imported_names notebook =
     [''sns'', ''Normal'', ''Lambda'', ''observed'', ''MCMC'', ''Matplot'', ''Uniform'',
      ''data'', ''np'', ''disasters_array'', ''plt'', ''DiscreteUniform'', ''Exponential'',
      ''Poisson'', ''deterministic'', ''disaster_model'', ''Metropolis'']"
  by code_simp

lemma notebook_sample_calls:
  "sample_calls notebook =
     [[Keyword ''iter'' (Num 10000), Keyword ''burn'' (Num 5000)],
      [Keyword ''iter'' (Num 10000), Keyword ''burn'' (Num 1000)],
      [Num 5000]]"
  by code_simp


lemma notebook_assigned_names:
  "assigned_names notebook =
     [''failure'', ''beta0'', ''beta1'', ''lam'', ''survival'', ''M'', ''n_count_data'',
      ''switchpoint'', ''early_mean'', ''late_mean'', ''rate'', ''disasters'', ''M'', ''x'',
      ''masked_values'', ''disasters'', ''missing_data_model'', ''M_missing'']"
  by code_simp

lemma notebook_in_place:
  "filter in_place (all_stmts notebook) =
     [Assign (Subscript (Name ''out'') (Slice NoneLit (Name ''s''))) (Name ''e''),
      Assign (Subscript (Name ''out'') (Slice (Name ''s'') NoneLit)) (Name ''l''),
      Assign (Subscript (Name ''out'') (Slice NoneLit (Name ''s''))) (Name ''e''),
      Assign (Subscript (Name ''out'') (Slice (Name ''s'') NoneLit)) (Name ''l'')]"
  by code_simp









lemma declared_missing:
  "declared missing_example =
     [''disasters'', ''switch'', ''early_mean'', ''late_mean'', ''rate'', ''disasters''] \<and>
   computed missing_example = [''rate''] \<and>
   observed missing_example = [''disasters'', ''disasters'']"
  by code_simp

lemma examples_cover:
  "concat notebook =
   concat (survival_example @ coal_example @ missing_example @ [cell_68, cell_70])"
  by code_simp

lemma notebook_callee_roots:
  "callee_roots notebook =
     [Some ''sns'', Some ''data'', Some ''Normal'', Some ''Lambda'', Some ''sum'', Some ''plt'',
      Some ''DiscreteUniform'', Some ''Exponential'', Some ''deterministic'', Some ''len'',
      Some ''np'', Some ''Poisson'', Some ''locals'', Some ''MCMC'',
      Some ''missing_data_model'', Some ''M_missing'', Some ''Matplot'', Some ''M'']"
  by code_simp

lemma notebook_call_sites:
  "call_sites [''sample'', ''plot'', ''hist'', ''summary'', ''summary_plot'', ''masked_values'']
     notebook =
     [(''sample'', Some ''M''), (''hist'', Some ''plt''), (''plot'', Some ''Matplot''),
      (''summary'', Some ''M''), (''masked_values'', Some ''np''),
      (''sample'', Some ''M_missing''), (''summary_plot'', Some ''Matplot'')]"
  by code_simp

lemma notebook_samplers:
  "bindings_of ''M'' notebook = [Some ''MCMC'', Some ''MCMC''] \<and>
   bindings_of ''M_missing'' notebook = [Some ''MCMC'']"
  by code_simp

lemma cell_01_operators:
  "operators_by_stmt cell_01 =
     [[], [], [], [], [], [], [''==''], [], [], [''+'', ''*''], [''-'', ''*'', ''*'']]"
  by code_simp





lemma rate_example: "rate (\<lambda>_. 0) 3 1 (5::real) 7 = [5, 7, 7]"
  by (simp add: rate_def np_empty_def set_slice_def slice_bound_def Let_def upt_rec)

subsection \<open>Functions and control flow\<close>

text \<open>
  C1, as the specification states it, fails: the notebook defines functions of its own
  with \<^verbatim>\<open>def\<close>, among them \<open>rate\<close> and \<open>survival\<close>, and a lambda, and such a function
  computes a value itself: \<open>rate\<close> returns a rate array allocated to two regimes.
\<close>

theorem notebook_defines_functions:
  "''rate'' \<in> set (defined_functions notebook) \<and>
   ''survival'' \<in> set (defined_functions notebook) \<and>
   lambdas notebook \<noteq> [] \<and>
   rate (\<lambda>_. 0) 3 1 (5::real) 7 = [5, 7, 7]"
proof -
  have "lambdas notebook \<noteq> []"
    using notebook_lambdas by auto
  then show ?thesis
    by (simp add: notebook_functions rate_example)
qed

text \<open>
  C1, amended. The notebook has no branch, loop, \<^verbatim>\<open>try\<close> or \<^verbatim>\<open>with\<close> statement, and
  every call in it goes outside the notebook (to an imported name, a Python built-in or
  an \<^verbatim>\<open>MCMC\<close> object), except the calls of its own \<open>missing_data_model\<close>. In particular
  sampling, plotting, summarising and masking are calls of \<^verbatim>\<open>M.sample\<close> and
  \<^verbatim>\<open>M_missing.sample\<close>, \<^verbatim>\<open>Matplot.plot\<close>, \<^verbatim>\<open>plt.hist\<close> and
  \<^verbatim>\<open>Matplot.summary_plot\<close>, \<^verbatim>\<open>M.early_mean.summary\<close>, and \<^verbatim>\<open>np.ma.masked_values\<close>,
  where \<^verbatim>\<open>M\<close> and \<^verbatim>\<open>M_missing\<close> are only ever bound to the result of \<^verbatim>\<open>MCMC\<close>. But
  the notebook does define four functions with \<^verbatim>\<open>def\<close> (\<open>survival\<close>, \<open>rate\<close>,
  \<open>missing_data_model\<close> and the \<open>rate\<close> nested in it) and one lambda, and its own code
  applies six operators, all in cell 1: one comparison in the statement that builds
  \<^verbatim>\<open>failure\<close>, two arithmetic operators in the lambda behind \<^verbatim>\<open>lam\<close> and three in
  \<open>survival\<close>.
\<close>

theorem notebook_call_structure:
  "filter is_control_flow (all_stmts notebook) = [] \<and>
   list_all (call_through notebook) (callee_roots notebook) \<and>
   call_sites [''sample'', ''plot'', ''hist'', ''summary'', ''summary_plot'', ''masked_values'']
     notebook =
     [(''sample'', Some ''M''), (''hist'', Some ''plt''), (''plot'', Some ''Matplot''),
      (''summary'', Some ''M''), (''masked_values'', Some ''np''),
      (''sample'', Some ''M_missing''), (''summary_plot'', Some ''Matplot'')] \<and>
   bindings_of ''M'' notebook = [Some ''MCMC'', Some ''MCMC''] \<and>
   bindings_of ''M_missing'' notebook = [Some ''MCMC''] \<and>
   defined_functions notebook = [''survival'', ''rate'', ''missing_data_model'', ''rate''] \<and>
   length (lambdas notebook) = 1 \<and>
   operators notebook = [''=='', ''+'', ''*'', ''-'', ''*'', ''*''] \<and>
   operators_by_stmt cell_01 =
     [[], [], [], [], [], [], [''==''], [], [], [''+'', ''*''], [''-'', ''*'', ''*'']]"
proof -
  have "list_all (call_through notebook) (callee_roots notebook)"
    by (simp add: notebook_callee_roots call_through_def notebook_imported_names builtins_def)
  then show ?thesis
    by (simp only: notebook_control_flow notebook_call_sites notebook_samplers
        notebook_functions notebook_lambdas notebook_operators cell_01_operators simp_thms)
qed

subsection \<open>Calls of the fitting routine\<close>

text \<open>
  C5, as the specification states it, fails: the notebook calls \<^verbatim>\<open>sample\<close> three times,
  and not every call passes the number of iterations, the burn-in length and the
  thinning interval.
\<close>

theorem sample_calls_lack_parameters:
  "length (sample_calls notebook) = 3 \<and>
   \<not> list_all passes_iter_burn_thin (sample_calls notebook)"
  by (simp add: notebook_sample_calls passes_iter_burn_thin_def supplies_def keyword_names_def
      positional_def List.map_filter_simps)

text \<open>
  C5, amended. Every call of \<^verbatim>\<open>sample\<close> passes the number of iterations. The two calls
  on \<^verbatim>\<open>M\<close> pass the burn-in length as well; the call on \<^verbatim>\<open>M_missing\<close> passes neither a
  burn-in length nor a thinning interval, and the second call on \<^verbatim>\<open>M\<close> passes no
  thinning interval.
\<close>

theorem sample_calls_pass_iterations:
  "list_all (supplies 0 ''iter'') (sample_calls notebook) \<and>
   map (supplies 1 ''burn'') (sample_calls notebook) = [True, True, False] \<and>
   \<not> supplies 2 ''thin'' (sample_calls notebook ! 1) \<and>
   \<not> supplies 2 ''thin'' (sample_calls notebook ! 2)"
  by (simp add: notebook_sample_calls supplies_def keyword_names_def positional_def
      List.map_filter_simps)

subsection \<open>Storage\<close>



subsection \<open>Bindings\<close>

text \<open>
  C7, as the specification states it, fails: the names \<^verbatim>\<open>M\<close> and \<^verbatim>\<open>disasters\<close> are each
  assigned a second time, in cells 42 and 60.
\<close>

theorem names_assigned_twice:
  "\<not> distinct (assigned_names notebook) \<and>
   rebound (assigned_names notebook) = [''M'', ''disasters'']"
  by (simp add: notebook_assigned_names)

text \<open>
  C7, amended. Every name the cells bind at top level is bound once, except \<^verbatim>\<open>M\<close> and
  \<^verbatim>\<open>disasters\<close>, which are bound twice, each time to a newly built object. The only
  statements that change an object in place are the two slice assignments to the local
  array \<^verbatim>\<open>out\<close> in each \<open>rate\<close> function: no statement assigns to an attribute or an
  element of a declared variable.
\<close>

theorem bindings_and_mutation:
  "rebound (assigned_names notebook) = [''M'', ''disasters''] \<and>
   distinct (filter (\<lambda>x. x \<noteq> ''M'' \<and> x \<noteq> ''disasters'') (assigned_names notebook)) \<and>
   filter in_place (all_stmts notebook) =
     [Assign (Subscript (Name ''out'') (Slice NoneLit (Name ''s''))) (Name ''e''),
      Assign (Subscript (Name ''out'') (Slice (Name ''s'') NoneLit)) (Name ''l''),
      Assign (Subscript (Name ''out'') (Slice NoneLit (Name ''s''))) (Name ''e''),
      Assign (Subscript (Name ''out'') (Slice (Name ''s'') NoneLit)) (Name ''l'')]"
  by (simp add: notebook_assigned_names notebook_in_place)

subsection \<open>Errors\<close>

lemma run_plain:
  "\<not> handles_errors s \<Longrightarrow>
   run ext (s # rest) st = (case ext s st of Inl e \<Rightarrow> Inl e | Inr st1 \<Rightarrow> run ext rest st1)"
  by (cases s) simp_all

lemma run_first_error:
  assumes "list_all (\<lambda>s. \<not> handles_errors s) (pre @ s # post)"
    and "run ext pre st = Inr st1" and "ext s st1 = Inl e"
  shows "run ext (pre @ s # post) st = Inl e"
  using assms
proof (induction pre arbitrary: st)
  case Nil
  then show ?case by (simp add: run_plain)
next
  case (Cons a pre)
  from Cons.prems(1) have a: "\<not> handles_errors a" by simp
  from Cons.prems(2) a obtain st2 where
    "ext a st = Inr st2" and "run ext pre st2 = Inr st1"
    by (auto simp: run_plain split: sum.splits)
  with Cons.IH [of st2] Cons.prems a show ?case
    by (simp add: run_plain)
qed

lemma self_in_sub_stmts: "s \<in> set (sub_stmts s)"
  by (cases s) simp_all

lemma top_level_in_all_stmts:
  "cell \<in> set cells \<Longrightarrow> s \<in> set cell \<Longrightarrow> s \<in> set (all_stmts cells)"
  using self_in_sub_stmts by (fastforce simp: all_stmts_def)

text \<open>
  C8. No statement of the notebook, at any depth, is a \<^verbatim>\<open>try\<close>, a \<^verbatim>\<open>with\<close> or a
  \<^verbatim>\<open>raise\<close>, and none is a loop or a branch that could retry a call. So whatever the
  statements do outside the notebook (\<open>ext\<close>), when a statement of a cell raises an
  error after the statements before it have run, running the cell ends with that same
  error.
\<close>

theorem errors_propagate:
  "filter handles_errors (all_stmts notebook) = [] \<and>
   filter is_control_flow (all_stmts notebook) = [] \<and>
   (\<forall>cell \<in> set notebook. \<forall>pre s post st st1 e.
      cell = pre @ s # post \<longrightarrow> run ext pre st = Inr st1 \<longrightarrow> ext s st1 = Inl e \<longrightarrow>
      run ext cell st = Inl e)"
proof -
  have none: "\<not> handles_errors s" if "s \<in> set (all_stmts notebook)" for s
    using notebook_handlers that by (simp add: filter_empty_conv)
  have "run ext cell st = Inl e"
    if "cell \<in> set notebook" and "cell = pre @ s # post"
      and "run ext pre st = Inr st1" and "ext s st1 = Inl e"
    for cell pre s post st st1 e
  proof -
    have "list_all (\<lambda>s. \<not> handles_errors s) cell"
      using none top_level_in_all_stmts [OF that(1)] by (simp add: list_all_iff)
    then show ?thesis
      using run_first_error [of pre s post ext st st1 e] that by simp
  qed
  then show ?thesis
    using notebook_handlers notebook_control_flow by blast
qed

theorem errors_propagate_witness:
  "run (\<lambda>s st. if s = Expr (Call (Attribute (Name ''M'') ''sample'')
                              [Keyword ''iter'' (Num 10000), Keyword ''burn'' (Num 5000)])
                then Inl ''ZeroProbability'' else Inr (Suc st))
       cell_03 (0::nat) = Inl ''ZeroProbability''"
proof -
  let ?bad = "Expr (Call (Attribute (Name ''M'') ''sample'')
                      [Keyword ''iter'' (Num 10000), Keyword ''burn'' (Num 5000)])"
  let ?first = "Assign (Name ''M'') (Call (Name ''MCMC'')
                  [ListLit [Name ''beta0'', Name ''beta1'', Name ''lam'', Name ''survival''],
                   Keyword ''db'' (Str ''pickle'')])"
  let ?ext = "\<lambda>s st. if s = ?bad then Inl ''ZeroProbability'' else Inr (Suc st)"
  have cell: "cell_03 \<in> set notebook"
    by (simp add: notebook_def)
  have shape: "cell_03 = [?first] @ ?bad # []"
    by (simp add: cell_03_def)
  have pre: "run ?ext [?first] (0::nat) = Inr (Suc 0)"
    by simp
  have bad: "?ext ?bad (Suc 0) = Inl ''ZeroProbability''"
    by simp
  from errors_propagate [of ?ext] cell shape pre bad show ?thesis
    by blast
qed

subsection \<open>The flow of the examples\<close>



end
